theory Spec2Isabelle
  imports Main "HOL-Library.Char_ord"
begin

section \<open>autoComplete.js: the widget instance and its pipeline\<close>

text \<open>
  The development embeds \<^verbatim>\<open>src/autoComplete.js\<close> (class \<^verbatim>\<open>autoComplete\<close>):
  the constructor, \<^verbatim>\<open>start\<close>, \<^verbatim>\<open>dataStore\<close>, \<^verbatim>\<open>compose\<close>, \<^verbatim>\<open>init\<close>,
  \<^verbatim>\<open>preInit\<close> and \<^verbatim>\<open>unInit\<close>. The instance is a record, every method takes the
  instance and the page (the DOM state with a chronological log of effects) and returns
  an outcome together with the page as the call left it, so that what happened before
  an exception is still visible. An exception or a rejected promise is \<open>Inl\<close>.
  The two \<^verbatim>\<open>async\<close> methods are run to completion: interleaving at \<^verbatim>\<open>await\<close> is
  not part of the model.

  The controllers and utilities the class imports (\<^verbatim>\<open>dataController\<close>,
  \<^verbatim>\<open>listController\<close>, \<^verbatim>\<open>navigationController\<close>, \<^verbatim>\<open>eventEmitter\<close>,
  \<^verbatim>\<open>debouncer\<close>, \<^verbatim>\<open>Input\<close>) are not among the source files; each is modelled
  from the specification and marked so.
\<close>

subsection \<open>Data model\<close>

text \<open>A DOM node is known by its identity; \<open>None\<close> of \<open>element option\<close> is \<^verbatim>\<open>null\<close>.\<close>

type_synonym element = nat

text \<open>The function object \<^verbatim>\<open>debouncer\<close> returns, known by its identity.\<close>

datatype hook = Hook nat

datatype err = TypeError | Thrown string

text \<open>
  What a call of a user-supplied source function does: it returns an array, returns a
  promise that resolves to an array, throws, or returns a promise that rejects.
\<close>

datatype 'r src_outcome =
    Returns "'r list"
  | Resolves "'r list"
  | Throws err
  | Rejects err

text \<open>\<^verbatim>\<open>data.src\<close>: an array or a zero-argument function.\<close>

datatype 'r source = SrcArray "'r list" | SrcFunction "'r src_outcome"

text \<open>\<^verbatim>\<open>selector\<close>: a CSS selector string, or a function returning the node.\<close>

datatype selector = SelString string | SelFunction "element option"

datatype engine = Strict | Loose

text \<open>The data feedback object \<^verbatim>\<open>{ input, query, matches, results }\<close>.\<close>

record 'r dataFeedback =
  fb_input :: string
  fb_query :: string
  fb_matches :: "'r list"
  fb_results :: "'r list"

text \<open>
  What a call of the \<^verbatim>\<open>noResults\<close> callback does. Line 124 hands it the feedback object
  and \<^verbatim>\<open>generateList\<close>: the call ends by returning or by throwing, and on its way it may
  call the \<^verbatim>\<open>generateList\<close> it was handed, each time with a feedback object and a list of
  matches of its choice.
\<close>

record 'r reaction =
  ends_with :: "err + unit"
  generates :: "('r dataFeedback \<times> 'r list) list"

text \<open>
  The instance, field by field as the constructor assigns it. \<^verbatim>\<open>data.key\<close> is the
  accessor of the configured key's value in a record (the identity for plain strings).
  A callback is the function from its argument to what the call does (for
  \<^verbatim>\<open>noResults\<close> a reaction, for \<^verbatim>\<open>feedback\<close> how the call ends). Options that only
  the list controller reads (\<^verbatim>\<open>container\<close>, \<^verbatim>\<open>content\<close>, \<^verbatim>\<open>onSelection\<close>)
  are kept as whether they are configured. \<open>None\<close> is \<^verbatim>\<open>undefined\<close>.
\<close>

record 'r data_part =
  src :: "'r source option"
  key :: "'r \<Rightarrow> string"
  cache :: bool
  store :: "'r list option"

record trigger_part =
  event :: "string list"
  condition :: "(string \<Rightarrow> bool) option"

record resultsList_part =
  render :: bool
  container :: bool
  destination :: "string option"
  position :: string
  rl_element :: string
  rl_idName :: string
  rl_className :: string
  navigation :: bool

record resultItem_part =
  content :: bool
  ri_element :: string
  ri_idName :: string
  ri_className :: string

record 'r autoComplete =
  name :: string
  selector :: selector
  data :: "'r data_part"
  query :: "(string \<Rightarrow> string) option"
  trigger :: trigger_part
  searchEngine :: engine
  diacritics :: bool
  threshold :: int
  debounce :: nat
  resultsList :: resultsList_part
  sort :: "('r \<Rightarrow> 'r \<Rightarrow> int) option"
  placeHolder :: "string option"
  maxResults :: int
  resultItem :: resultItem_part
  noResults :: "('r dataFeedback \<Rightarrow> 'r reaction) option"
  highlight :: bool
  feedback :: "('r dataFeedback \<Rightarrow> err + unit) option"
  onSelection :: bool
  inputField :: "element option"
  hook :: "hook option"

text \<open>What an emitted event carries as its \<^verbatim>\<open>detail\<close>.\<close>

datatype 'r detail = DNull | DStore "'r list option" | DFeedback "'r dataFeedback"

text \<open>
  The observable effects, as the log records them. A list that the \<^verbatim>\<open>noResults\<close>
  callback generates with the \<^verbatim>\<open>generateList\<close> it was handed is logged apart from the
  list \<^verbatim>\<open>start\<close> generates itself at line 129.
\<close>

datatype 'r effect =
    Emitted "element option" "'r detail" string
  | ListsClosed "element option"
  | ListGenerated "'r dataFeedback" "'r list"
  | NavigationEnabled "'r dataFeedback"
  | SrcCalled
  | NoResultsCalled "'r dataFeedback"
  | FeedbackCalled "'r dataFeedback"
  | InputComponentSet "element option"
  | AttributeSet element string string
  | DocumentListenerAdded string
  | ListGeneratedByCallback "'r dataFeedback" "'r list"

text \<open>
  The page: what \<^verbatim>\<open>document.querySelector\<close> finds, the current value of a field,
  the listeners registered on nodes, the results list on display (if any), how many
  debounced functions have been made, and the log.
\<close>

record 'r page =
  querySelector :: "string \<Rightarrow> element option"
  fieldValue :: "element option \<Rightarrow> string"
  listeners :: "(element \<times> string \<times> hook) list"
  openList :: "'r list option"
  hooksMade :: nat
  log :: "'r effect list"

definition record_effect :: "'r effect \<Rightarrow> 'r page \<Rightarrow> 'r page" where
  "record_effect e p = p\<lparr>log := log p @ [e]\<rparr>"

subsection \<open>The data controller\<close>

text \<open>
  Modelled from the spec: \<^verbatim>\<open>getInputValue(inputField)\<close> of the missing
  \<^verbatim>\<open>controllers/dataController\<close> "reads current raw value"; the value is the
  page's, for whatever field reference the instance holds.
\<close>

definition getInputValue :: "'r page \<Rightarrow> element option \<Rightarrow> string" where
  "getInputValue p field = fieldValue p field"

text \<open>
  Modelled from the spec: \<^verbatim>\<open>prepareQueryValue(input, queryFn)\<close> of the missing
  \<^verbatim>\<open>controllers/dataController\<close> "applies optional user transform to raw input
  before matching; identity if absent".
\<close>

definition prepareQueryValue :: "string \<Rightarrow> (string \<Rightarrow> string) option \<Rightarrow> string" where
  "prepareQueryValue input queryFn = (case queryFn of None \<Rightarrow> input | Some f \<Rightarrow> f input)"

text \<open>
  Modelled from the spec: \<^verbatim>\<open>checkTriggerCondition(instance, query)\<close> of the missing
  \<^verbatim>\<open>controllers/dataController\<close> is "true when \<^verbatim>\<open>query.length >= threshold\<close> OR a
  custom trigger predicate evaluates true".
\<close>

definition checkTriggerCondition :: "'r autoComplete \<Rightarrow> string \<Rightarrow> bool" where
  "checkTriggerCondition this q =
     (if threshold this \<le> int (length q) then True
      else case condition (trigger this) of None \<Rightarrow> False | Some holds \<Rightarrow> holds q)"

text \<open>
  The \<^verbatim>\<open>strict\<close> engine, a scan: the query is looked for at the head of the value, then
  at the head of each of its tails.
\<close>

fun starts_with :: "string \<Rightarrow> string \<Rightarrow> bool" where
  "starts_with v [] = True"
| "starts_with [] (c # q) = False"
| "starts_with (d # v) (c # q) = (if d = c then starts_with v q else False)"

fun strict_search :: "string \<Rightarrow> string \<Rightarrow> bool" where
  "strict_search q [] = (q = [])"
| "strict_search q (d # v) = (if starts_with (d # v) q then True else strict_search q v)"

text \<open>
  The \<^verbatim>\<open>loose\<close> engine: each character of the query is found in the value after the
  one before it. The gap score the specification mentions is metadata of the match and
  is not kept.
\<close>

fun loose_search :: "string \<Rightarrow> string \<Rightarrow> bool" where
  "loose_search [] v = True"
| "loose_search (c # q) [] = False"
| "loose_search (c # q) (d # v) = (if c = d then loose_search q v else loose_search (c # q) v)"

definition search :: "engine \<Rightarrow> string \<Rightarrow> string \<Rightarrow> bool" where
  "search e q v = (case e of Strict \<Rightarrow> strict_search q v | Loose \<Rightarrow> loose_search q v)"

text \<open>
  Sorting by a user comparator (negative: the first argument goes first), stable as
  \<^verbatim>\<open>Array.prototype.sort\<close> is.
\<close>

fun insert_by :: "('r \<Rightarrow> 'r \<Rightarrow> int) \<Rightarrow> 'r \<Rightarrow> 'r list \<Rightarrow> 'r list" where
  "insert_by cmp x [] = [x]"
| "insert_by cmp x (y # ys) = (if cmp x y \<le> 0 then x # y # ys else y # insert_by cmp x ys)"

fun sort_by :: "('r \<Rightarrow> 'r \<Rightarrow> int) \<Rightarrow> 'r list \<Rightarrow> 'r list" where
  "sort_by cmp [] = []"
| "sort_by cmp (x # xs) = insert_by cmp x (sort_by cmp xs)"

text \<open>
  The normalisation of a string under a given \<^verbatim>\<open>diacritics\<close> flag (case folding and,
  when the flag is set, removal of diacritics) is a parameter: the specification only
  says that strings are "case/diacritic-normalized per config".
\<close>

type_synonym normaliser = "bool \<Rightarrow> string \<Rightarrow> string"

text \<open>The records of the store; a store that was never populated holds none.\<close>

definition stored :: "'r autoComplete \<Rightarrow> 'r list" where
  "stored this = (case store (data this) of None \<Rightarrow> [] | Some records \<Rightarrow> records)"

text \<open>
  Modelled from the spec: \<^verbatim>\<open>listMatchingResults(instance, query)\<close> of the missing
  \<^verbatim>\<open>controllers/dataController\<close>: "for each record in the data store, compares
  (case/diacritic-normalized per config) the query against the configured key's value
  using the selected search engine"; "Results are optionally sorted by a user comparator;
  unmatched records excluded". A match is represented by its data record.
\<close>

definition listMatchingResults :: "normaliser \<Rightarrow> 'r autoComplete \<Rightarrow> string \<Rightarrow> 'r list" where
  "listMatchingResults nf this q =
     (let found = filter (\<lambda>r. search (searchEngine this) (nf (diacritics this) q)
                                  (nf (diacritics this) (key (data this) r)))
                         (stored this)
      in case sort this of None \<Rightarrow> found | Some cmp \<Rightarrow> sort_by cmp found)"

text \<open>A normaliser for ASCII text: upper-case letters are lowered, nothing else changes.\<close>

definition lower_char :: "char \<Rightarrow> char" where
  "lower_char c = (if CHR ''A'' \<le> c \<and> c \<le> CHR ''Z'' then char_of (of_char c + (32::nat)) else c)"

definition ascii_normaliser :: normaliser where
  "ascii_normaliser dia s = map lower_char s"

subsection \<open>The list controller, navigation, events and the debouncer\<close>

text \<open>
  Modelled from the spec: \<^verbatim>\<open>eventEmitter(target, detail, name)\<close> of the missing
  \<^verbatim>\<open>utils/eventEmitter\<close> "dispatches custom events on the input element so host code
  can observe lifecycle points"; the dispatch is an entry of the log.
\<close>

definition eventEmitter :: "element option \<Rightarrow> 'r detail \<Rightarrow> string \<Rightarrow> 'r page \<Rightarrow> 'r page" where
  "eventEmitter target detail eventName p = record_effect (Emitted target detail eventName) p"

text \<open>
  Modelled from the spec: \<^verbatim>\<open>closeAllLists(instance, clickedTarget?)\<close> of the missing
  \<^verbatim>\<open>controllers/listController\<close> "removes the rendered list unless
  \<^verbatim>\<open>clickedTarget\<close> is the input field or inside the list". A click inside the list
  needs the DOM tree, which is not modelled: only a click on the input field keeps
  the list.
\<close>

definition closeAllLists :: "'r autoComplete \<Rightarrow> element option \<Rightarrow> 'r page \<Rightarrow> 'r page" where
  "closeAllLists this clickedTarget p =
     record_effect (ListsClosed clickedTarget)
       (case clickedTarget of
          None \<Rightarrow> p\<lparr>openList := None\<rparr>
        | Some node \<Rightarrow> if inputField this = Some node then p else p\<lparr>openList := None\<rparr>)"

text \<open>
  Modelled from the spec: \<^verbatim>\<open>generateList(instance, feedback, results)\<close> of the missing
  \<^verbatim>\<open>controllers/listController\<close> "destroys prior list, creates a new container
  element [...], creates one result-item element per result (respecting
  \<^verbatim>\<open>maxResults\<close>)": the list on display becomes the truncated results.
\<close>

definition generateList :: "'r autoComplete \<Rightarrow> 'r dataFeedback \<Rightarrow> 'r list \<Rightarrow> 'r page \<Rightarrow> 'r page" where
  "generateList this dataFeedback results p =
     record_effect (ListGenerated dataFeedback results) (p\<lparr>openList := Some (fb_results dataFeedback)\<rparr>)"

text \<open>
  A call of \<^verbatim>\<open>generateList\<close> made by the \<^verbatim>\<open>noResults\<close> callback (the instance it passes
  is taken to be this one): the list on display changes as \<open>generateList\<close> changes it.
\<close>

definition generateList_handed ::
  "'r autoComplete \<Rightarrow> 'r dataFeedback \<times> 'r list \<Rightarrow> 'r page \<Rightarrow> 'r page" where
  "generateList_handed this call p =
     record_effect (ListGeneratedByCallback (fst call) (snd call))
       (p\<lparr>openList := openList (generateList this (fst call) (snd call) p)\<rparr>)"

text \<open>
  Modelled from the spec: \<^verbatim>\<open>navigate(instance, feedback)\<close> of the missing
  \<^verbatim>\<open>controllers/navigationController\<close> "attaches a keydown listener"; the call is an
  entry of the log.
\<close>

definition navigate :: "'r autoComplete \<Rightarrow> 'r dataFeedback \<Rightarrow> 'r page \<Rightarrow> 'r page" where
  "navigate this dataFeedback p = record_effect (NavigationEnabled dataFeedback) p"

text \<open>
  Modelled from the spec: \<^verbatim>\<open>inputComponent(instance)\<close> of the missing
  \<^verbatim>\<open>components/Input\<close> is "attribute setting" on the input field; the call is an
  entry of the log.
\<close>

definition inputComponent :: "'r autoComplete \<Rightarrow> 'r page \<Rightarrow> 'r page" where
  "inputComponent this p = record_effect (InputComponentSet (inputField this)) p"

text \<open>
  Modelled from the spec: \<^verbatim>\<open>debouncer(callback, delay)\<close> of the missing
  \<^verbatim>\<open>utils/debouncer\<close> "wraps a callback so rapid successive invocations collapse into
  one"; each call makes a new function object. The delay itself is real time and is
  not modelled.
\<close>

definition debouncer :: "nat \<Rightarrow> 'r page \<Rightarrow> hook \<times> 'r page" where
  "debouncer delay p = (Hook (hooksMade p), p\<lparr>hooksMade := Suc (hooksMade p)\<rparr>)"

text \<open>
  The DOM's \<^verbatim>\<open>addEventListener\<close> (a listener already registered for the type is not
  registered twice) and \<^verbatim>\<open>removeEventListener\<close> (\<^verbatim>\<open>undefined\<close> removes nothing).
\<close>

definition addEventListener :: "element \<Rightarrow> string \<Rightarrow> hook \<Rightarrow> 'r page \<Rightarrow> 'r page" where
  "addEventListener node eventType h p =
     (if (node, eventType, h) \<in> set (listeners p) then p
      else p\<lparr>listeners := listeners p @ [(node, eventType, h)]\<rparr>)"

definition removeEventListener :: "element \<Rightarrow> string \<Rightarrow> hook option \<Rightarrow> 'r page \<Rightarrow> 'r page" where
  "removeEventListener node eventType h p =
     (case h of
        None \<Rightarrow> p
      | Some f \<Rightarrow> p\<lparr>listeners := removeAll (node, eventType, f) (listeners p)\<rparr>)"

text \<open>
  \<^verbatim>\<open>Array.prototype.slice(begin, end)\<close> with \<^verbatim>\<open>begin = 0\<close> and an integer end: a
  negative end counts from the end of the array.
\<close>

definition slice :: "'a list \<Rightarrow> int \<Rightarrow> 'a list" where
  "slice xs stop =
     (let len = int (length xs);
          final = (if stop < 0 then max (len + stop) 0 else min stop len)
      in take (nat final) xs)"

subsection \<open>The methods of the class\<close>

text \<open>
  \<^verbatim>\<open>start(input, query)\<close>, lines 113 to 143. Line 124 calls
  \<^verbatim>\<open>this.noResults(dataFeedback, generateList)\<close>: the calls of \<^verbatim>\<open>generateList\<close> in the
  callback's reaction happen to the page during the call, in their order, and
  \<^verbatim>\<open>start\<close> returns what the callback returned or raises what it threw. Line 126 calls
  \<^verbatim>\<open>this.feedback(dataFeedback)\<close> with the feedback object alone.
\<close>

definition start ::
  "normaliser \<Rightarrow> 'r autoComplete \<Rightarrow> string \<Rightarrow> string \<Rightarrow> 'r page \<Rightarrow> (err + unit) \<times> 'r page" where
  "start nf this input q p =
     (let results = listMatchingResults nf this q;
          dataFeedback = \<lparr>fb_input = input, fb_query = q, fb_matches = results,
                          fb_results = slice results (maxResults this)\<rparr>;
          p1 = eventEmitter (inputField this) (DFeedback dataFeedback) ''autoComplete.results'' p
      in if results = [] then
           (case noResults this of
              Some callback \<Rightarrow>
                (let reaction = callback dataFeedback;
                     p2 = record_effect (NoResultsCalled dataFeedback) p1
                 in (ends_with reaction, fold (generateList_handed this) (generates reaction) p2))
            | None \<Rightarrow> (Inr (), p1))
         else if \<not> render (resultsList this) then
           (case feedback this of
              Some callback \<Rightarrow> (callback dataFeedback, record_effect (FeedbackCalled dataFeedback) p1)
            | None \<Rightarrow> (Inl TypeError, p1))
         else
           (let p2 = (if results \<noteq> [] then generateList this dataFeedback results p1 else p1);
                p3 = eventEmitter (inputField this) (DFeedback dataFeedback) ''autoComplete.rendered'' p2
            in (Inr (), navigate this dataFeedback p3)))"

text \<open>
  \<^verbatim>\<open>dataStore()\<close>, lines 145 to 155. \<^verbatim>\<open>await\<close> of what the source function did:
  a throw and a rejection both leave the method before the assignment. An array is
  truthy, also the empty one; \<^verbatim>\<open>undefined\<close> is not.
\<close>

definition await :: "'r src_outcome \<Rightarrow> err + 'r list" where
  "await outcome =
     (case outcome of
        Returns xs \<Rightarrow> Inr xs
      | Resolves xs \<Rightarrow> Inr xs
      | Throws e \<Rightarrow> Inl e
      | Rejects e \<Rightarrow> Inl e)"

definition assign_store ::
  "'r list option \<Rightarrow> 'r autoComplete \<Rightarrow> 'r page \<Rightarrow> (err + unit) \<times> 'r autoComplete \<times> 'r page" where
  "assign_store fetched this p =
     (let this1 = this\<lparr>data := (data this)\<lparr>store := fetched\<rparr>\<rparr>
      in (Inr (), this1,
          eventEmitter (inputField this1) (DStore (store (data this1))) ''autoComplete.fetch'' p))"

definition dataStore ::
  "'r autoComplete \<Rightarrow> 'r page \<Rightarrow> (err + unit) \<times> 'r autoComplete \<times> 'r page" where
  "dataStore this p =
     (if cache (data this) \<and> store (data this) \<noteq> None then (Inr (), this, p)
      else
        (case src (data this) of
           Some (SrcFunction outcome) \<Rightarrow>
             (case await outcome of
                Inl e \<Rightarrow> (Inl e, this, record_effect SrcCalled p)
              | Inr xs \<Rightarrow> assign_store (Some xs) this (record_effect SrcCalled p))
         | Some (SrcArray xs) \<Rightarrow> assign_store (Some xs) this p
         | None \<Rightarrow> assign_store None this p))"

text \<open>\<^verbatim>\<open>compose()\<close>, lines 158 to 177.\<close>

definition compose ::
  "normaliser \<Rightarrow> 'r autoComplete \<Rightarrow> 'r page \<Rightarrow> (err + unit) \<times> 'r autoComplete \<times> 'r page" where
  "compose nf this p =
     (let input = getInputValue p (inputField this);
          q = prepareQueryValue input (query this);
          triggerCondition = checkTriggerCondition this q
      in if triggerCondition then
           (case dataStore this p of
              (Inl e, this1, p1) \<Rightarrow> (Inl e, this1, p1)
            | (Inr u, this1, p1) \<Rightarrow>
                (let p2 = closeAllLists this1 None p1;
                     (outcome, p3) = start nf this1 input q p2
                 in (outcome, this1, p3)))
         else (Inr (), this, closeAllLists this None p))"

text \<open>
  \<^verbatim>\<open>init(inputField)\<close>, lines 180 to 202. The \<^verbatim>\<open>forEach\<close> over
  \<^verbatim>\<open>trigger.event\<close> reads \<^verbatim>\<open>inputField.addEventListener\<close> once per event type; on
  \<^verbatim>\<open>null\<close> the first read raises. A placeholder is set when it is truthy (a non-empty
  string).
\<close>

fun attach :: "element option \<Rightarrow> hook \<Rightarrow> string list \<Rightarrow> 'r page \<Rightarrow> (err + unit) \<times> 'r page" where
  "attach field h [] p = (Inr (), p)"
| "attach field h (eventType # rest) p =
     (case field of
        None \<Rightarrow> (Inl TypeError, p)
      | Some node \<Rightarrow> attach field h rest (addEventListener node eventType h p))"

definition truthy :: "string option \<Rightarrow> bool" where
  "truthy v = (case v of None \<Rightarrow> False | Some text \<Rightarrow> text \<noteq> [])"

definition init ::
  "'r autoComplete \<Rightarrow> element option \<Rightarrow> 'r page \<Rightarrow> (err + unit) \<times> 'r autoComplete \<times> 'r page" where
  "init this field p =
     (let this1 = this\<lparr>inputField := field\<rparr>;
          p1 = inputComponent this1 p
      in if truthy (placeHolder this1) \<and> field = None then (Inl TypeError, this1, p1)
         else
           (let p2 = (case field of
                        Some node \<Rightarrow>
                          if truthy (placeHolder this1)
                          then record_effect (AttributeSet node ''placeholder'' (the (placeHolder this1))) p1
                          else p1
                      | None \<Rightarrow> p1);
                (h, p3) = debouncer (debounce this1) p2;
                this2 = this1\<lparr>hook := Some h\<rparr>
            in case attach field h (event (trigger this2)) p3 of
                 (Inl e, p4) \<Rightarrow> (Inl e, this2, p4)
               | (Inr u, p4) \<Rightarrow> (Inr (), this2, eventEmitter field DNull ''init'' p4)))"

text \<open>\<^verbatim>\<open>preInit()\<close>, lines 205 to 211.\<close>

definition preInit ::
  "'r autoComplete \<Rightarrow> 'r page \<Rightarrow> (err + unit) \<times> 'r autoComplete \<times> 'r page" where
  "preInit this p =
     (let field = (case selector this of
                     SelFunction found \<Rightarrow> found
                   | SelString css \<Rightarrow> querySelector p css);
          p1 = eventEmitter field DNull ''connect'' p
      in init this field p1)"

text \<open>\<^verbatim>\<open>unInit()\<close>, lines 214 to 220.\<close>

definition unInit :: "'r autoComplete \<Rightarrow> 'r page \<Rightarrow> (err + unit) \<times> 'r page" where
  "unInit this p =
     (case inputField this of
        None \<Rightarrow> (Inl TypeError, p)
      | Some node \<Rightarrow>
          (Inr (), eventEmitter (Some node) DNull ''autoComplete.unInit''
                     (removeEventListener node ''input'' (hook this) p)))"

subsection \<open>The constructor\<close>

text \<open>
  The configuration object: a key that is absent (\<^verbatim>\<open>undefined\<close>) is \<open>None\<close>, and
  the destructuring of lines 21 to 62 puts the default in its place. \<^verbatim>\<open>trigger\<close>,
  \<^verbatim>\<open>resultsList\<close> and \<^verbatim>\<open>resultItem\<close> default to the empty object; \<^verbatim>\<open>data\<close> has
  no default, so destructuring a configuration without it raises a TypeError.
\<close>

record 'r data_config =
  c_src :: "'r source option"
  c_key :: "'r \<Rightarrow> string"
  c_cache :: "bool option"
  c_store :: "'r list option"

record trigger_config =
  c_event :: "string list option"
  c_condition :: "(string \<Rightarrow> bool) option"

record resultsList_config =
  c_render :: "bool option"
  c_container :: "bool option"
  c_destination :: "string option"
  c_position :: "string option"
  c_rl_element :: "string option"
  c_rl_idName :: "string option"
  c_rl_className :: "string option"
  c_navigation :: "bool option"

record resultItem_config =
  c_content :: "bool option"
  c_ri_element :: "string option"
  c_ri_idName :: "string option"
  c_ri_className :: "string option"

record 'r config =
  c_name :: "string option"
  c_selector :: "selector option"
  c_data :: "'r data_config option"
  c_query :: "(string \<Rightarrow> string) option"
  c_trigger :: "trigger_config option"
  c_searchEngine :: "engine option"
  c_diacritics :: "bool option"
  c_threshold :: "int option"
  c_debounce :: "nat option"
  c_resultsList :: "resultsList_config option"
  c_sort :: "('r \<Rightarrow> 'r \<Rightarrow> int) option"
  c_placeHolder :: "string option"
  c_maxResults :: "int option"
  c_resultItem :: "resultItem_config option"
  c_noResults :: "('r dataFeedback \<Rightarrow> 'r reaction) option"
  c_highlight :: "bool option"
  c_feedback :: "('r dataFeedback \<Rightarrow> err + unit) option"
  c_onSelection :: "bool option"

text \<open>\<^verbatim>\<open>x = d\<close> in a destructuring pattern.\<close>

definition default_to :: "'a \<Rightarrow> 'a option \<Rightarrow> 'a" where
  "default_to d v = (case v of None \<Rightarrow> d | Some x \<Rightarrow> x)"

definition empty_trigger :: trigger_config where
  "empty_trigger = \<lparr>c_event = None, c_condition = None\<rparr>"

definition empty_resultsList :: resultsList_config where
  "empty_resultsList =
     \<lparr>c_render = None, c_container = None, c_destination = None, c_position = None,
      c_rl_element = None, c_rl_idName = None, c_rl_className = None, c_navigation = None\<rparr>"

definition empty_resultItem :: resultItem_config where
  "empty_resultItem =
     \<lparr>c_content = None, c_ri_element = None, c_ri_idName = None, c_ri_className = None\<rparr>"

text \<open>
  The assignments of lines 65 to 104. \<^verbatim>\<open>destination || this.inputField\<close> is
  evaluated before any field reference exists: a falsy destination becomes
  \<^verbatim>\<open>undefined\<close>.
\<close>

definition assign_config :: "'r config \<Rightarrow> 'r data_config \<Rightarrow> 'r autoComplete" where
  "assign_config config d =
     (let t = default_to empty_trigger (c_trigger config);
          rl = default_to empty_resultsList (c_resultsList config);
          ri = default_to empty_resultItem (c_resultItem config)
      in \<lparr>name = default_to ''Search'' (c_name config),
          selector = default_to (SelString ''#autoComplete'') (c_selector config),
          data = \<lparr>src = c_src d, key = c_key d, cache = default_to False (c_cache d),
                  store = c_store d\<rparr>,
          query = c_query config,
          trigger = \<lparr>event = default_to [''input''] (c_event t), condition = c_condition t\<rparr>,
          searchEngine = default_to Strict (c_searchEngine config),
          diacritics = default_to False (c_diacritics config),
          threshold = default_to 1 (c_threshold config),
          debounce = default_to 0 (c_debounce config),
          resultsList =
            \<lparr>render = default_to True (c_render rl),
             container = default_to False (c_container rl),
             destination = (if truthy (c_destination rl) then c_destination rl else None),
             position = default_to ''afterend'' (c_position rl),
             rl_element = default_to ''ul'' (c_rl_element rl),
             rl_idName = default_to ''autoComplete_list'' (c_rl_idName rl),
             rl_className = default_to ''autoComplete_list'' (c_rl_className rl),
             navigation = default_to False (c_navigation rl)\<rparr>,
          sort = c_sort config,
          placeHolder = c_placeHolder config,
          maxResults = default_to 5 (c_maxResults config),
          resultItem =
            \<lparr>content = default_to False (c_content ri),
             ri_element = default_to ''li'' (c_ri_element ri),
             ri_idName = default_to ''autoComplete_result'' (c_ri_idName ri),
             ri_className = default_to ''autoComplete_result'' (c_ri_className ri)\<rparr>,
          noResults = c_noResults config,
          highlight = default_to False (c_highlight config),
          feedback = c_feedback config,
          onSelection = default_to False (c_onSelection config),
          inputField = None,
          hook = None\<rparr>)"

text \<open>
  \<^verbatim>\<open>new autoComplete(config)\<close>, lines 19 to 110: the instance is returned only when
  nothing raised; the listener for clicks on the document is added last.
\<close>

definition constructor :: "'r config \<Rightarrow> 'r page \<Rightarrow> (err + 'r autoComplete) \<times> 'r page" where
  "constructor config p =
     (case c_data config of
        None \<Rightarrow> (Inl TypeError, p)
      | Some d \<Rightarrow>
          (case preInit (assign_config config d) p of
             (Inl e, this1, p1) \<Rightarrow> (Inl e, p1)
           | (Inr u, this1, p1) \<Rightarrow> (Inr this1, record_effect (DocumentListenerAdded ''click'') p1)))"

subsection \<open>A page and configurations to run the class on\<close>

text \<open>A page whose only input field, node 7, answers to \<^verbatim>\<open>#autoComplete\<close>.\<close>

definition blank_page :: "string \<Rightarrow> string page" where
  "blank_page typed =
     \<lparr>querySelector = (\<lambda>css. if css = ''#autoComplete'' then Some 7 else None),
      fieldValue = (\<lambda>field. if field = Some 7 then typed else []),
      listeners = [], openList = None, hooksMade = 0, log = []\<rparr>"

definition fruit_data :: "string data_config" where
  "fruit_data =
     \<lparr>c_src = Some (SrcArray [''apple'', ''banana'', ''grape'']), c_key = (\<lambda>r. r),
      c_cache = None, c_store = None\<rparr>"

definition fruit_config :: "string config" where
  "fruit_config =
     \<lparr>c_name = None, c_selector = None, c_data = Some fruit_data, c_query = None,
      c_trigger = None, c_searchEngine = None, c_diacritics = None, c_threshold = None,
      c_debounce = None, c_resultsList = None, c_sort = None, c_placeHolder = None,
      c_maxResults = None, c_resultItem = None, c_noResults = None, c_highlight = None,
      c_feedback = None, c_onSelection = None\<rparr>"

text \<open>The instance that \<open>fruit_config\<close> constructs on \<open>blank_page\<close>, before any fetch.\<close>

definition fruit_finder :: "string autoComplete" where
  "fruit_finder = (assign_config fruit_config fruit_data)\<lparr>inputField := Some 7, hook := Some (Hook 0)\<rparr>"

text \<open>The same instance once its store holds the three fruits.\<close>

definition fruit_stocked :: "string autoComplete" where
  "fruit_stocked = fruit_finder\<lparr>data := (data fruit_finder)\<lparr>store := Some [''apple'', ''banana'', ''grape'']\<rparr>\<rparr>"


definition fruit_quiet :: "string autoComplete" where
  "fruit_quiet = fruit_stocked\<lparr>resultsList := (resultsList fruit_stocked)\<lparr>render := False\<rparr>\<rparr>"

definition fruit_patient :: "string autoComplete" where
  "fruit_patient = fruit_stocked\<lparr>threshold := 3\<rparr>"

text \<open>
  A \<^verbatim>\<open>noResults\<close> callback that opens the list it was handed the means to generate,
  \<^verbatim>\<open>(dataFeedback, generateList) => { generateList(instance, dataFeedback,
  dataFeedback.results) }\<close>, and the instance configured with it.
\<close>

definition apologise :: "string dataFeedback \<Rightarrow> string reaction" where
  "apologise dataFeedback =
     \<lparr>ends_with = Inr (), generates = [(dataFeedback, fb_results dataFeedback)]\<rparr>"

definition fruit_apologetic :: "string autoComplete" where
  "fruit_apologetic = fruit_stocked\<lparr>noResults := Some apologise\<rparr>"

text \<open>Variations of the source: a function whose promise rejects, and a cached function.\<close>

definition fruit_offline :: "string autoComplete" where
  "fruit_offline =
     fruit_finder\<lparr>data := (data fruit_finder)\<lparr>src := Some (SrcFunction (Rejects (Thrown ''offline'')))\<rparr>\<rparr>"

definition fruit_cached :: "string autoComplete" where
  "fruit_cached =
     fruit_finder\<lparr>data := (data fruit_finder)
       \<lparr>src := Some (SrcFunction (Resolves [''apple'', ''banana'', ''grape''])), cache := True\<rparr>\<rparr>"

text \<open>The first \<^verbatim>\<open>compose()\<close> of the cached instance, with \<^verbatim>\<open>"ap"\<close> typed.\<close>

definition first_pass :: "(err + unit) \<times> string autoComplete \<times> string page" where
  "first_pass = compose ascii_normaliser fruit_cached (blank_page ''ap'')"

subsection \<open>Reading the log\<close>


text \<open>The effects of a fetch: the call of the source function and the fetch event.\<close>

fun fetches :: "'r effect \<Rightarrow> bool" where
  "fetches SrcCalled = True"
| "fetches (Emitted target detail eventName) = (eventName = ''autoComplete.fetch'')"
| "fetches other = False"

subsection \<open>Configurations that go wrong\<close>

text \<open>
  Two trigger events instead of one; a selector that finds nothing on the page; no
  \<^verbatim>\<open>data\<close> object; a \<^verbatim>\<open>data\<close> object without \<^verbatim>\<open>src\<close>.
\<close>

definition focus_config :: "string config" where
  "focus_config = fruit_config\<lparr>c_trigger := Some \<lparr>c_event = Some [''input'', ''focus''], c_condition = None\<rparr>\<rparr>"

definition lost_config :: "string config" where
  "lost_config = fruit_config\<lparr>c_selector := Some (SelString ''#search'')\<rparr>"

definition dataless_config :: "string config" where
  "dataless_config = fruit_config\<lparr>c_data := None\<rparr>"

definition sourceless_config :: "string config" where
  "sourceless_config = fruit_config\<lparr>c_data := Some (fruit_data\<lparr>c_src := None\<rparr>)\<rparr>"

section \<open>Properties\<close>

subsection \<open>The example instances, field by field\<close>

lemma ascii_plain:
  "ascii_normaliser d ''ap'' = ''ap''"
  "ascii_normaliser d ''kiwi'' = ''kiwi''"
  "ascii_normaliser d ''apple'' = ''apple''"
  "ascii_normaliser d ''apricot'' = ''apricot''"
  "ascii_normaliser d ''banana'' = ''banana''"
  "ascii_normaliser d ''grape'' = ''grape''"
  by (simp_all add: ascii_normaliser_def lower_char_def)

lemma finder_simps:
  "inputField fruit_finder = Some 7" "query fruit_finder = None" "threshold fruit_finder = 1"
  "condition (trigger fruit_finder) = None" "cache (data fruit_finder) = False"
  "store (data fruit_finder) = None"
  "src (data fruit_finder) = Some (SrcArray [''apple'', ''banana'', ''grape''])"
  by (simp_all add: fruit_finder_def assign_config_def fruit_config_def
      fruit_data_def default_to_def empty_trigger_def)

lemma fruit_stocked_simps:
  "searchEngine fruit_stocked = Strict" "sort fruit_stocked = None"
  "store (data fruit_stocked) = Some [''apple'', ''banana'', ''grape'']"
  "stored fruit_stocked = [''apple'', ''banana'', ''grape'']"
  "key (data fruit_stocked) = (\<lambda>r. r)" "diacritics fruit_stocked = False"
  "maxResults fruit_stocked = 5" "noResults fruit_stocked = None" "feedback fruit_stocked = None"
  "render (resultsList fruit_stocked) = True" "inputField fruit_stocked = Some 7"
  by (simp_all add: fruit_stocked_def fruit_finder_def assign_config_def fruit_config_def fruit_data_def
      default_to_def stored_def empty_resultsList_def)


lemma quiet_simps:
  "searchEngine fruit_quiet = Strict" "sort fruit_quiet = None"
  "stored fruit_quiet = [''apple'', ''banana'', ''grape'']"
  "key (data fruit_quiet) = (\<lambda>r. r)" "diacritics fruit_quiet = False"
  "maxResults fruit_quiet = 5" "noResults fruit_quiet = None" "feedback fruit_quiet = None"
  "render (resultsList fruit_quiet) = False" "inputField fruit_quiet = Some 7"
  by (simp_all add: fruit_quiet_def fruit_stocked_simps fruit_stocked_def fruit_finder_def assign_config_def fruit_config_def fruit_data_def
      default_to_def stored_def empty_resultsList_def)

lemma patient_simps:
  "inputField fruit_patient = Some 7" "query fruit_patient = None" "threshold fruit_patient = 3"
  "condition (trigger fruit_patient) = None"
  by (simp_all add: fruit_patient_def fruit_stocked_def fruit_finder_def assign_config_def fruit_config_def
      fruit_data_def default_to_def empty_trigger_def)

lemma offline_simps:
  "inputField fruit_offline = Some 7" "query fruit_offline = None" "threshold fruit_offline = 1"
  "condition (trigger fruit_offline) = None" "cache (data fruit_offline) = False"
  "store (data fruit_offline) = None"
  "src (data fruit_offline) = Some (SrcFunction (Rejects (Thrown ''offline'')))"
  by (simp_all add: fruit_offline_def fruit_finder_def assign_config_def fruit_config_def
      fruit_data_def default_to_def empty_trigger_def)

lemma cached_simps:
  "inputField fruit_cached = Some 7" "query fruit_cached = None" "threshold fruit_cached = 1"
  "condition (trigger fruit_cached) = None" "cache (data fruit_cached) = True"
  "store (data fruit_cached) = None"
  "src (data fruit_cached) = Some (SrcFunction (Resolves [''apple'', ''banana'', ''grape'']))"
  by (simp_all add: fruit_cached_def fruit_finder_def assign_config_def fruit_config_def
      fruit_data_def default_to_def empty_trigger_def)

subsection \<open>Matching\<close>

lemma starts_with_iff: "starts_with v q \<longleftrightarrow> (\<exists>post. v = q @ post)"
  by (induction v q rule: starts_with.induct) auto

lemma strict_search_iff: "strict_search q v \<longleftrightarrow> (\<exists>pre post. v = pre @ q @ post)"
proof (induction v)
  case Nil
  then show ?case by auto
next
  case (Cons d v)
  show ?case
  proof
    assume "strict_search q (d # v)"
    then consider "starts_with (d # v) q" | "strict_search q v" by (auto split: if_splits)
    then show "\<exists>pre post. d # v = pre @ q @ post"
    proof cases
      case 1
      then obtain post where "d # v = q @ post" by (auto simp: starts_with_iff)
      then have "d # v = [] @ q @ post" by simp
      then show ?thesis by blast
    next
      case 2
      then obtain pre post where "v = pre @ q @ post" using Cons.IH by blast
      then have "d # v = (d # pre) @ q @ post" by simp
      then show ?thesis by blast
    qed
  next
    assume "\<exists>pre post. d # v = pre @ q @ post"
    then obtain pre post where e: "d # v = pre @ q @ post" by blast
    show "strict_search q (d # v)"
    proof (cases pre)
      case Nil
      with e have "starts_with (d # v) q" by (auto simp: starts_with_iff)
      then show ?thesis by simp
    next
      case (Cons a pre')
      with e have "v = pre' @ q @ post" by simp
      then have "strict_search q v" using Cons.IH by blast
      then show ?thesis by simp
    qed
  qed
qed

lemma set_insert_by: "set (insert_by cmp x ys) = insert x (set ys)"
  by (induction ys) auto

lemma set_sort_by: "set (sort_by cmp xs) = set xs"
  by (induction xs) (auto simp: set_insert_by)

lemma matches_unsorted:
  "sort this = None \<Longrightarrow>
   listMatchingResults nf this q =
     filter (\<lambda>r. search (searchEngine this) (nf (diacritics this) q) (nf (diacritics this) (key (data this) r)))
       (stored this)"
  by (simp add: listMatchingResults_def)

lemma set_matches:
  "set (listMatchingResults nf this q) =
     {r \<in> set (stored this).
        search (searchEngine this) (nf (diacritics this) q) (nf (diacritics this) (key (data this) r))}"
  by (cases "sort this") (simp_all add: listMatchingResults_def set_sort_by)

text \<open>
  Claim C1, as amended. Under the \<^verbatim>\<open>strict\<close> engine \<open>listMatchingResults\<close> includes a
  record of the store if and only if the normalised query is a contiguous substring of
  the normalised value of the configured key; without a custom sort the matches are the
  matching records in the order of the store. For the data \<^verbatim>\<open>["apple", "banana",
  "grape"]\<close> with the identity key, no custom sort and the query \<^verbatim>\<open>"ap"\<close>, the matches
  are \<^verbatim>\<open>["apple", "grape"]\<close>: both contain \<^verbatim>\<open>"ap"\<close> contiguously.
\<close>

theorem strict_engine_matches_contiguous_substrings:
  "(searchEngine this = Strict \<longrightarrow>
      (r \<in> set (listMatchingResults nf this q) \<longleftrightarrow>
         r \<in> set (stored this) \<and>
         (\<exists>pre post. nf (diacritics this) (key (data this) r) = pre @ nf (diacritics this) q @ post)))
   \<and> (searchEngine this = Strict \<and> sort this = None \<longrightarrow>
        listMatchingResults nf this q =
          filter (\<lambda>r. \<exists>pre post. nf (diacritics this) (key (data this) r) = pre @ nf (diacritics this) q @ post)
            (stored this))
   \<and> (searchEngine s = Strict \<and> sort s = None
        \<and> store (data s) = Some [''apple'', ''banana'', ''grape'']
        \<and> key (data s) = (\<lambda>r. r) \<longrightarrow>
        listMatchingResults ascii_normaliser s ''ap'' = [''apple'', ''grape''])"
proof (intro conjI impI)
  assume "searchEngine this = Strict"
  then show "r \<in> set (listMatchingResults nf this q) \<longleftrightarrow>
         r \<in> set (stored this) \<and>
         (\<exists>pre post. nf (diacritics this) (key (data this) r) = pre @ nf (diacritics this) q @ post)"
    by (simp add: set_matches search_def strict_search_iff)
next
  assume "searchEngine this = Strict \<and> sort this = None"
  then show "listMatchingResults nf this q =
          filter (\<lambda>r. \<exists>pre post. nf (diacritics this) (key (data this) r) = pre @ nf (diacritics this) q @ post)
            (stored this)"
    by (simp add: matches_unsorted search_def strict_search_iff)
next
  assume "searchEngine s = Strict \<and> sort s = None
        \<and> store (data s) = Some [''apple'', ''banana'', ''grape'']
        \<and> key (data s) = (\<lambda>r. r)"
  then show "listMatchingResults ascii_normaliser s ''ap'' = [''apple'', ''grape'']"
    by (simp add: listMatchingResults_def stored_def search_def ascii_plain)
qed

theorem strict_engine_matches_contiguous_substrings_witness:
  "searchEngine fruit_stocked = Strict \<and> sort fruit_stocked = None
   \<and> store (data fruit_stocked) = Some [''apple'', ''banana'', ''grape'']
   \<and> key (data fruit_stocked) = (\<lambda>r. r)
   \<and> ''banana'' \<in> set (stored fruit_stocked)
   \<and> ''banana'' \<notin> set (listMatchingResults ascii_normaliser fruit_stocked ''ap'')
   \<and> listMatchingResults ascii_normaliser fruit_stocked ''ap'' = [''apple'', ''grape'']"
proof -
  have given: "searchEngine fruit_stocked = Strict \<and> sort fruit_stocked = None
      \<and> store (data fruit_stocked) = Some [''apple'', ''banana'', ''grape'']
      \<and> key (data fruit_stocked) = (\<lambda>r. r)"
    by (simp add: fruit_stocked_simps)
  have found: "listMatchingResults ascii_normaliser fruit_stocked ''ap'' = [''apple'', ''grape'']"
    using given
      strict_engine_matches_contiguous_substrings
        [of fruit_stocked "''banana''" ascii_normaliser "''ap''" fruit_stocked]
    by blast
  show ?thesis using given found by (simp add: fruit_stocked_simps)
qed

text \<open>
  Claim C1 as stated fails at its own scenario: \<^verbatim>\<open>"grape"\<close> is \<^verbatim>\<open>"gr" + "ap" + "e"\<close>,
  so it is among the matches and the matches are not exactly \<^verbatim>\<open>["apple"]\<close>.
\<close>

theorem strict_scenario_counterexample:
  "listMatchingResults ascii_normaliser fruit_stocked ''ap'' \<noteq> [''apple'']
   \<and> ''grape'' = ''gr'' @ ''ap'' @ ''e''
   \<and> ''grape'' \<in> set (listMatchingResults ascii_normaliser fruit_stocked ''ap'')"
  by (simp add: listMatchingResults_def fruit_stocked_simps search_def ascii_plain)

subsection \<open>One search: \<^verbatim>\<open>start\<close>\<close>




lemma slice_Nil: "slice [] n = []"
  by (simp add: slice_def Let_def)

lemma handed_calls:
  "fold (generateList_handed this) calls p =
     p\<lparr>openList := (if calls = [] then openList p else Some (fb_results (fst (last calls)))),
       log := log p @ map (\<lambda>call. ListGeneratedByCallback (fst call) (snd call)) calls\<rparr>"
proof (induction calls arbitrary: p)
  case Nil
  show ?case by simp
next
  case (Cons call calls)
  let ?first = "generateList_handed this call p"
  have "fold (generateList_handed this) (call # calls) p =
      fold (generateList_handed this) calls ?first"
    by simp
  also have "\<dots> =
      ?first\<lparr>openList := (if calls = [] then openList ?first
                           else Some (fb_results (fst (last calls)))),
              log := log ?first @ map (\<lambda>call. ListGeneratedByCallback (fst call) (snd call)) calls\<rparr>"
    by (rule Cons.IH)
  also have "\<dots> =
      p\<lparr>openList := (if call # calls = [] then openList p
                      else Some (fb_results (fst (last (call # calls))))),
        log := log p @ map (\<lambda>call. ListGeneratedByCallback (fst call) (snd call)) (call # calls)\<rparr>"
    by (cases "calls = []")
      (simp_all add: generateList_handed_def generateList_def record_effect_def)
  finally show ?case .
qed



lemma handed_calls_fetch_nothing:
  "filter fetches (map (\<lambda>call. ListGeneratedByCallback (fst call) (snd call)) calls) = []"
  by (induction calls) simp_all





text \<open>
  Claim C6, as amended. When the match list is empty, \<^verbatim>\<open>start\<close> emits
  \<^verbatim>\<open>autoComplete.results\<close> and itself generates no list, emits no
  \<^verbatim>\<open>autoComplete.rendered\<close> and does not enable navigation. Without a \<^verbatim>\<open>noResults\<close>
  callback the page changes by that event alone and \<^verbatim>\<open>start\<close> returns normally. A
  configured \<^verbatim>\<open>noResults\<close> callback is called with the feedback object and with
  \<^verbatim>\<open>generateList\<close>; \<^verbatim>\<open>start\<close> ends as the callback ends, and a list is generated during
  the call exactly when the callback generates one with the \<^verbatim>\<open>generateList\<close> it was
  handed: the list on display is then the one of its last call.
\<close>

theorem start_without_matches:
  "listMatchingResults nf this q = [] \<Longrightarrow>
   (let fb = \<lparr>fb_input = input, fb_query = q, fb_matches = [], fb_results = []\<rparr>;
        announced = Emitted (inputField this) (DFeedback fb) ''autoComplete.results''
    in case noResults this of
         None \<Rightarrow> start nf this input q p = (Inr (), p\<lparr>log := log p @ [announced]\<rparr>)
       | Some callback \<Rightarrow>
           start nf this input q p =
             (ends_with (callback fb),
              p\<lparr>openList :=
                   (if generates (callback fb) = [] then openList p
                    else Some (fb_results (fst (last (generates (callback fb)))))),
                log := log p @ [announced, NoResultsCalled fb]
                         @ map (\<lambda>call. ListGeneratedByCallback (fst call) (snd call))
                             (generates (callback fb))\<rparr>))"
proof -
  assume none: "listMatchingResults nf this q = []"
  let ?fb = "\<lparr>fb_input = input, fb_query = q, fb_matches = [], fb_results = []\<rparr> :: 'a dataFeedback"
  let ?announced = "Emitted (inputField this) (DFeedback ?fb) ''autoComplete.results''"
  show ?thesis
  proof (cases "noResults this")
    case None
    then show ?thesis
      using none by (simp add: start_def Let_def slice_Nil eventEmitter_def record_effect_def)
  next
    case (Some callback)
    have "start nf this input q p =
        (ends_with (callback ?fb),
         fold (generateList_handed this) (generates (callback ?fb))
           (p\<lparr>log := log p @ [?announced, NoResultsCalled ?fb]\<rparr>))"
      using none Some by (simp add: start_def Let_def slice_Nil eventEmitter_def record_effect_def)
    then show ?thesis
      using Some by (simp add: Let_def handed_calls)
  qed
qed

lemma no_kiwi: "listMatchingResults ascii_normaliser fruit_stocked ''kiwi'' = []"
  by (simp add: listMatchingResults_def fruit_stocked_simps search_def ascii_plain)

lemma apologetic_simps:
  "searchEngine fruit_apologetic = Strict" "sort fruit_apologetic = None"
  "stored fruit_apologetic = [''apple'', ''banana'', ''grape'']"
  "key (data fruit_apologetic) = (\<lambda>r. r)" "diacritics fruit_apologetic = False"
  "noResults fruit_apologetic = Some apologise" "inputField fruit_apologetic = Some 7"
  by (simp_all add: fruit_apologetic_def fruit_stocked_simps stored_def)

lemma no_kiwi_to_apologise_for:
  "listMatchingResults ascii_normaliser fruit_apologetic ''kiwi'' = []"
  by (simp add: listMatchingResults_def apologetic_simps search_def ascii_plain)

theorem start_without_matches_witness:
  "listMatchingResults ascii_normaliser fruit_stocked ''kiwi'' = []
   \<and> noResults fruit_stocked = None
   \<and> fst (start ascii_normaliser fruit_stocked ''kiwi'' ''kiwi'' (blank_page ''kiwi'')) = Inr ()
   \<and> log (snd (start ascii_normaliser fruit_stocked ''kiwi'' ''kiwi'' (blank_page ''kiwi''))) =
       [Emitted (Some 7)
          (DFeedback \<lparr>fb_input = ''kiwi'', fb_query = ''kiwi'', fb_matches = [], fb_results = []\<rparr>)
          ''autoComplete.results'']
   \<and> openList (snd (start ascii_normaliser fruit_stocked ''kiwi'' ''kiwi'' (blank_page ''kiwi''))) = None
   \<and> listMatchingResults ascii_normaliser fruit_apologetic ''kiwi'' = []
   \<and> noResults fruit_apologetic = Some apologise
   \<and> fst (start ascii_normaliser fruit_apologetic ''kiwi'' ''kiwi'' (blank_page ''kiwi'')) = Inr ()
   \<and> log (snd (start ascii_normaliser fruit_apologetic ''kiwi'' ''kiwi'' (blank_page ''kiwi''))) =
       [Emitted (Some 7)
          (DFeedback \<lparr>fb_input = ''kiwi'', fb_query = ''kiwi'', fb_matches = [], fb_results = []\<rparr>)
          ''autoComplete.results'',
        NoResultsCalled \<lparr>fb_input = ''kiwi'', fb_query = ''kiwi'', fb_matches = [], fb_results = []\<rparr>,
        ListGeneratedByCallback
          \<lparr>fb_input = ''kiwi'', fb_query = ''kiwi'', fb_matches = [], fb_results = []\<rparr> []]"
proof -
  have blank: "log (blank_page ''kiwi'' :: string page) = []"
      "openList (blank_page ''kiwi'' :: string page) = None"
    by (simp_all add: blank_page_def)
  have plain: "fst (start ascii_normaliser fruit_stocked ''kiwi'' ''kiwi'' (blank_page ''kiwi'')) = Inr ()
      \<and> log (snd (start ascii_normaliser fruit_stocked ''kiwi'' ''kiwi'' (blank_page ''kiwi''))) =
       [Emitted (Some 7)
          (DFeedback \<lparr>fb_input = ''kiwi'', fb_query = ''kiwi'', fb_matches = [], fb_results = []\<rparr>)
          ''autoComplete.results'']
      \<and> openList (snd (start ascii_normaliser fruit_stocked ''kiwi'' ''kiwi'' (blank_page ''kiwi''))) = None"
    using start_without_matches
            [where nf = ascii_normaliser and this = fruit_stocked and q = "''kiwi''"
               and input = "''kiwi''" and p = "blank_page ''kiwi''", OF no_kiwi]
    by (simp add: fruit_stocked_simps Let_def blank)
  have apology: "fst (start ascii_normaliser fruit_apologetic ''kiwi'' ''kiwi'' (blank_page ''kiwi'')) = Inr ()
      \<and> log (snd (start ascii_normaliser fruit_apologetic ''kiwi'' ''kiwi'' (blank_page ''kiwi''))) =
       [Emitted (Some 7)
          (DFeedback \<lparr>fb_input = ''kiwi'', fb_query = ''kiwi'', fb_matches = [], fb_results = []\<rparr>)
          ''autoComplete.results'',
        NoResultsCalled \<lparr>fb_input = ''kiwi'', fb_query = ''kiwi'', fb_matches = [], fb_results = []\<rparr>,
        ListGeneratedByCallback
          \<lparr>fb_input = ''kiwi'', fb_query = ''kiwi'', fb_matches = [], fb_results = []\<rparr> []]"
    using start_without_matches
            [where nf = ascii_normaliser and this = fruit_apologetic and q = "''kiwi''"
               and input = "''kiwi''" and p = "blank_page ''kiwi''", OF no_kiwi_to_apologise_for]
    by (simp add: apologetic_simps Let_def blank apologise_def)
  show ?thesis
    using plain apology
    by (simp add: no_kiwi no_kiwi_to_apologise_for fruit_stocked_simps apologetic_simps)
qed

text \<open>
  Claim C6 as stated fails when the \<^verbatim>\<open>noResults\<close> callback uses the \<^verbatim>\<open>generateList\<close>
  that line 124 hands it: the match list is empty, no list was on display before the
  call, and a list is on display after it.
\<close>

theorem start_without_matches_counterexample:
  "listMatchingResults ascii_normaliser fruit_apologetic ''kiwi'' = []
   \<and> openList (blank_page ''kiwi'' :: string page) = None
   \<and> openList (snd (start ascii_normaliser fruit_apologetic ''kiwi'' ''kiwi'' (blank_page ''kiwi''))) =
       Some []
   \<and> ListGeneratedByCallback
        \<lparr>fb_input = ''kiwi'', fb_query = ''kiwi'', fb_matches = [], fb_results = []\<rparr> []
      \<in> set (log (snd (start ascii_normaliser fruit_apologetic ''kiwi'' ''kiwi'' (blank_page ''kiwi''))))"
  by (simp add: start_def Let_def no_kiwi_to_apologise_for slice_Nil apologetic_simps apologise_def
      eventEmitter_def record_effect_def generateList_handed_def generateList_def blank_page_def)

lemma init_keeps_feedback:
  "init this field p = (outcome, this1, p1) \<Longrightarrow> feedback this1 = feedback this"
  by (auto simp: init_def Let_def split: if_splits prod.splits sum.splits)

lemma constructor_keeps_feedback:
  "fst (constructor config p) = Inr this \<Longrightarrow> feedback this = c_feedback config"
  by (auto simp: constructor_def preInit_def Let_def assign_config_def
      split: option.splits prod.splits sum.splits dest!: init_keeps_feedback)

text \<open>
  Claim C10. When \<^verbatim>\<open>resultsList.render\<close> is false and there is at least one match,
  \<^verbatim>\<open>start\<close> calls \<^verbatim>\<open>this.feedback(dataFeedback)\<close> whatever the configuration: with a
  callback the outcome of \<^verbatim>\<open>start\<close> is the callback's, and with none (as for every
  instance constructed from a configuration without \<^verbatim>\<open>feedback\<close>) the call raises a
  TypeError, after \<^verbatim>\<open>autoComplete.results\<close> was emitted.
\<close>

theorem start_needs_feedback_when_not_rendering:
  "listMatchingResults nf this q \<noteq> [] \<Longrightarrow> \<not> render (resultsList this) \<Longrightarrow>
   (let fb = \<lparr>fb_input = input, fb_query = q, fb_matches = listMatchingResults nf this q,
               fb_results = slice (listMatchingResults nf this q) (maxResults this)\<rparr>;
        announced = Emitted (inputField this) (DFeedback fb) ''autoComplete.results''
    in (case feedback this of
          None \<Rightarrow> start nf this input q p = (Inl TypeError, p\<lparr>log := log p @ [announced]\<rparr>)
        | Some callback \<Rightarrow>
            start nf this input q p =
              (callback fb, p\<lparr>log := log p @ [announced, FeedbackCalled fb]\<rparr>))
       \<and> (fst (constructor config p0) = Inr this \<and> c_feedback config = None \<longrightarrow>
            fst (start nf this input q p) = Inl TypeError))"
proof -
  assume matches: "listMatchingResults nf this q \<noteq> []" and quiet: "\<not> render (resultsList this)"
  have configured: "fst (constructor config p0) = Inr this \<and> c_feedback config = None \<longrightarrow>
      feedback this = None"
    using constructor_keeps_feedback [of config p0 this] by auto
  show ?thesis
    using matches quiet configured
    by (simp add: start_def Let_def eventEmitter_def record_effect_def split: option.splits)
qed

lemma quiet_banana: "listMatchingResults ascii_normaliser fruit_quiet ''banana'' = [''banana'']"
  by (simp add: listMatchingResults_def quiet_simps search_def ascii_plain)

theorem start_needs_feedback_when_not_rendering_witness:
  "listMatchingResults ascii_normaliser fruit_quiet ''banana'' \<noteq> []
   \<and> \<not> render (resultsList fruit_quiet)
   \<and> feedback fruit_quiet = None
   \<and> fst (start ascii_normaliser fruit_quiet ''banana'' ''banana'' (blank_page ''banana'')) = Inl TypeError"
proof -
  have matches: "listMatchingResults ascii_normaliser fruit_quiet ''banana'' \<noteq> []"
    by (simp add: quiet_banana)
  have quiet: "\<not> render (resultsList fruit_quiet)"
    by (simp add: quiet_simps)
  show ?thesis
    using start_needs_feedback_when_not_rendering
            [where nf = ascii_normaliser and this = fruit_quiet and q = "''banana''"
               and input = "''banana''" and p = "blank_page ''banana''", OF matches quiet]
          matches quiet
    by (simp add: quiet_simps Let_def)
qed

subsection \<open>One pass: \<^verbatim>\<open>dataStore\<close> and \<^verbatim>\<open>compose\<close>\<close>

lemma short_query_no_trigger:
  "int (length q) < threshold this \<Longrightarrow> condition (trigger this) = None \<Longrightarrow>
   \<not> checkTriggerCondition this q"
  by (simp add: checkTriggerCondition_def)

text \<open>
  Claim C3. When the trigger condition is false (as it is for a query shorter than the
  threshold with no custom predicate), \<^verbatim>\<open>compose()\<close> does nothing but close the lists:
  the instance is as it was, so nothing was fetched; the log gains \<^verbatim>\<open>closeAllLists\<close>
  alone, so the source was not called and no event of a fetch or of a search was
  emitted; no list is on display.
\<close>

theorem compose_without_trigger:
  "q = prepareQueryValue (getInputValue p (inputField this)) (query this) \<Longrightarrow>
   \<not> checkTriggerCondition this q
     \<or> (int (length q) < threshold this \<and> condition (trigger this) = None) \<Longrightarrow>
   \<not> checkTriggerCondition this q
   \<and> compose nf this p = (Inr (), this, p\<lparr>openList := None, log := log p @ [ListsClosed None]\<rparr>)"
proof -
  assume q: "q = prepareQueryValue (getInputValue p (inputField this)) (query this)"
  assume "\<not> checkTriggerCondition this q
     \<or> (int (length q) < threshold this \<and> condition (trigger this) = None)"
  then have idle: "\<not> checkTriggerCondition this q"
    using short_query_no_trigger by blast
  then have "compose nf this p = (Inr (), this, closeAllLists this None p)"
    using q by (simp add: compose_def Let_def)
  then show ?thesis
    using idle by (simp add: closeAllLists_def record_effect_def)
qed

theorem compose_without_trigger_witness:
  "''ap'' = prepareQueryValue (getInputValue (blank_page ''ap'') (inputField fruit_patient)) (query fruit_patient)
   \<and> int (length ''ap'') < threshold fruit_patient \<and> condition (trigger fruit_patient) = None
   \<and> fst (compose ascii_normaliser fruit_patient (blank_page ''ap'')) = Inr ()
   \<and> log (snd (snd (compose ascii_normaliser fruit_patient (blank_page ''ap'')))) = [ListsClosed None]
   \<and> openList (snd (snd (compose ascii_normaliser fruit_patient (blank_page ''ap'')))) = None"
proof -
  have typed: "''ap'' = prepareQueryValue (getInputValue (blank_page ''ap'') (inputField fruit_patient))
                  (query fruit_patient)"
    by (simp add: patient_simps prepareQueryValue_def getInputValue_def blank_page_def)
  have short: "int (length ''ap'') < threshold fruit_patient \<and> condition (trigger fruit_patient) = None"
    by (simp add: patient_simps)
  show ?thesis
    using compose_without_trigger
            [where nf = ascii_normaliser and this = fruit_patient and p = "blank_page ''ap''"
               and q = "''ap''", OF typed disjI2 [OF short]]
          typed short
    by (simp add: blank_page_def)
qed

lemma await_failure: "outcome = Throws e \<or> outcome = Rejects e \<Longrightarrow> await outcome = Inl e"
  by (auto simp: await_def)

text \<open>
  Claim C5. When the source is a function whose call throws or whose promise rejects,
  a \<^verbatim>\<open>compose()\<close> that reaches the fetch (the trigger condition holds and no cached
  store stands in) ends with that same error. The instance is as it was, so the store
  keeps its value; the source was called once; the lists were not closed and no search
  started.
\<close>

theorem compose_source_failure:
  "checkTriggerCondition this (prepareQueryValue (getInputValue p (inputField this)) (query this)) \<Longrightarrow>
   \<not> (cache (data this) \<and> store (data this) \<noteq> None) \<Longrightarrow>
   src (data this) = Some (SrcFunction outcome) \<Longrightarrow>
   outcome = Throws e \<or> outcome = Rejects e \<Longrightarrow>
   compose nf this p = (Inl e, this, p\<lparr>log := log p @ [SrcCalled]\<rparr>)"
proof -
  assume trigger: "checkTriggerCondition this
      (prepareQueryValue (getInputValue p (inputField this)) (query this))"
  assume fresh: "\<not> (cache (data this) \<and> store (data this) \<noteq> None)"
  assume source: "src (data this) = Some (SrcFunction outcome)"
  assume "outcome = Throws e \<or> outcome = Rejects e"
  then have "await outcome = Inl e"
    by (rule await_failure)
  then have "dataStore this p = (Inl e, this, record_effect SrcCalled p)"
    using fresh source by (simp add: dataStore_def)
  then show ?thesis
    using trigger by (simp add: compose_def Let_def record_effect_def)
qed

theorem compose_source_failure_witness:
  "checkTriggerCondition fruit_offline
     (prepareQueryValue (getInputValue (blank_page ''ap'') (inputField fruit_offline)) (query fruit_offline))
   \<and> \<not> (cache (data fruit_offline) \<and> store (data fruit_offline) \<noteq> None)
   \<and> src (data fruit_offline) = Some (SrcFunction (Rejects (Thrown ''offline'')))
   \<and> fst (compose ascii_normaliser fruit_offline (blank_page ''ap'')) = Inl (Thrown ''offline'')
   \<and> store (data (fst (snd (compose ascii_normaliser fruit_offline (blank_page ''ap''))))) = None
   \<and> log (snd (snd (compose ascii_normaliser fruit_offline (blank_page ''ap'')))) = [SrcCalled]"
proof -
  have trigger: "checkTriggerCondition fruit_offline
     (prepareQueryValue (getInputValue (blank_page ''ap'') (inputField fruit_offline)) (query fruit_offline))"
    by (simp add: checkTriggerCondition_def offline_simps prepareQueryValue_def getInputValue_def
        blank_page_def)
  have fresh: "\<not> (cache (data fruit_offline) \<and> store (data fruit_offline) \<noteq> None)"
    by (simp add: offline_simps)
  have source: "src (data fruit_offline) = Some (SrcFunction (Rejects (Thrown ''offline'')))"
    by (simp add: offline_simps)
  show ?thesis
    using compose_source_failure
            [where nf = ascii_normaliser and e = "Thrown ''offline''", OF trigger fresh source disjI2 [OF refl]]
          trigger fresh source
    by (simp add: offline_simps blank_page_def)
qed

lemma start_fetches_nothing:
  "\<exists>new. log (snd (start nf this input q p)) = log p @ new \<and> filter fetches new = []"
  by (auto simp: start_def Let_def eventEmitter_def record_effect_def generateList_def navigate_def
      handed_calls handed_calls_fetch_nothing split: option.splits)

lemma dataStore_when_cached:
  "cache (data this) \<Longrightarrow> store (data this) = Some records \<Longrightarrow> dataStore this p = (Inr (), this, p)"
  by (simp add: dataStore_def)

text \<open>
  Claim C4. With \<^verbatim>\<open>data.cache\<close> true and \<^verbatim>\<open>data.store\<close> populated, \<^verbatim>\<open>dataStore()\<close>
  returns at once: the instance and the page are as they were, so the source was not
  called, no \<^verbatim>\<open>autoComplete.fetch\<close> was emitted and the store is unchanged. A
  \<^verbatim>\<open>compose()\<close> on such an instance leaves the instance as it was and logs no effect
  of a fetch.
\<close>

theorem cached_store_is_not_fetched_again:
  "cache (data this) \<Longrightarrow> store (data this) = Some records \<Longrightarrow>
   dataStore this p = (Inr (), this, p)
   \<and> (\<exists>outcome p1 new. compose nf this p = (outcome, this, p1)
         \<and> log p1 = log p @ new \<and> filter fetches new = [])"
proof -
  assume cached: "cache (data this)" and populated: "store (data this) = Some records"
  have kept: "dataStore this p = (Inr (), this, p)"
    using cached populated by (rule dataStore_when_cached)
  let ?input = "getInputValue p (inputField this)"
  let ?q = "prepareQueryValue ?input (query this)"
  have "\<exists>outcome p1 new. compose nf this p = (outcome, this, p1)
         \<and> log p1 = log p @ new \<and> filter fetches new = []"
  proof (cases "checkTriggerCondition this ?q")
    case False
    then have "compose nf this p = (Inr (), this, closeAllLists this None p)"
      by (simp add: compose_def Let_def)
    moreover have "log (closeAllLists this None p) = log p @ [ListsClosed None]"
      by (simp add: closeAllLists_def record_effect_def)
    ultimately show ?thesis by simp
  next
    case True
    let ?p2 = "closeAllLists this None p"
    obtain new where new: "log (snd (start nf this ?input ?q ?p2)) = log ?p2 @ new"
        "filter fetches new = []"
      using start_fetches_nothing by blast
    have closed: "log ?p2 = log p @ [ListsClosed None]"
      by (simp add: closeAllLists_def record_effect_def)
    have "compose nf this p =
        (fst (start nf this ?input ?q ?p2), this, snd (start nf this ?input ?q ?p2))"
      using True kept by (simp add: compose_def Let_def split: prod.splits)
    moreover have "log (snd (start nf this ?input ?q ?p2)) = log p @ (ListsClosed None # new)"
      using new closed by simp
    moreover have "filter fetches (ListsClosed None # new) = []"
      using new by simp
    ultimately show ?thesis by blast
  qed
  then show ?thesis using kept by blast
qed

lemma first_fetch:
  "dataStore fruit_cached p =
     (Inr (), fruit_cached\<lparr>data := (data fruit_cached)\<lparr>store := Some [''apple'', ''banana'', ''grape'']\<rparr>\<rparr>,
      p\<lparr>log := log p @ [SrcCalled,
            Emitted (Some 7) (DStore (Some [''apple'', ''banana'', ''grape''])) ''autoComplete.fetch'']\<rparr>)"
  by (simp add: dataStore_def cached_simps await_def assign_store_def eventEmitter_def record_effect_def)

lemma compose_after_fetch:
  "checkTriggerCondition this (prepareQueryValue (getInputValue p (inputField this)) (query this)) \<Longrightarrow>
   dataStore this p = (Inr (), this1, p1) \<Longrightarrow>
   compose nf this p =
     (fst (start nf this1 (getInputValue p (inputField this))
             (prepareQueryValue (getInputValue p (inputField this)) (query this))
             (closeAllLists this1 None p1)),
      this1,
      snd (start nf this1 (getInputValue p (inputField this))
             (prepareQueryValue (getInputValue p (inputField this)) (query this))
             (closeAllLists this1 None p1)))"
  by (simp add: compose_def Let_def split: prod.splits)

lemma first_pass_effects:
  "cache (data (fst (snd first_pass)))
   \<and> store (data (fst (snd first_pass))) = Some [''apple'', ''banana'', ''grape'']
   \<and> filter fetches (log (snd (snd first_pass))) =
       [SrcCalled,
        Emitted (Some 7) (DStore (Some [''apple'', ''banana'', ''grape''])) ''autoComplete.fetch'']"
proof -
  let ?p = "blank_page ''ap'' :: string page"
  let ?this1 = "fruit_cached\<lparr>data := (data fruit_cached)\<lparr>store := Some [''apple'', ''banana'', ''grape'']\<rparr>\<rparr>"
  let ?p1 = "?p\<lparr>log := log ?p @ [SrcCalled,
            Emitted (Some 7) (DStore (Some [''apple'', ''banana'', ''grape''])) ''autoComplete.fetch'']\<rparr>"
  let ?input = "getInputValue ?p (inputField fruit_cached)"
  let ?q = "prepareQueryValue ?input (query fruit_cached)"
  let ?p2 = "closeAllLists ?this1 None ?p1"
  have trigger: "checkTriggerCondition fruit_cached ?q"
    by (simp add: checkTriggerCondition_def cached_simps prepareQueryValue_def getInputValue_def
        blank_page_def)
  have pass: "first_pass =
      (fst (start ascii_normaliser ?this1 ?input ?q ?p2), ?this1,
       snd (start ascii_normaliser ?this1 ?input ?q ?p2))"
    unfolding first_pass_def by (rule compose_after_fetch [OF trigger first_fetch])
  obtain new where new: "log (snd (start ascii_normaliser ?this1 ?input ?q ?p2)) = log ?p2 @ new"
      "filter fetches new = []"
    using start_fetches_nothing by blast
  have "log ?p2 = [SrcCalled,
        Emitted (Some 7) (DStore (Some [''apple'', ''banana'', ''grape''])) ''autoComplete.fetch'',
        ListsClosed None]"
    by (simp add: closeAllLists_def record_effect_def blank_page_def)
  then have "filter fetches (log (snd (snd first_pass))) =
       [SrcCalled,
        Emitted (Some 7) (DStore (Some [''apple'', ''banana'', ''grape''])) ''autoComplete.fetch'']"
    using new by (simp add: pass)
  then show ?thesis
    by (simp add: pass cached_simps)
qed

theorem cached_store_is_not_fetched_again_witness:
  "cache (data (fst (snd first_pass)))
   \<and> store (data (fst (snd first_pass))) = Some [''apple'', ''banana'', ''grape'']
   \<and> filter fetches (log (snd (snd first_pass))) =
       [SrcCalled,
        Emitted (Some 7) (DStore (Some [''apple'', ''banana'', ''grape''])) ''autoComplete.fetch'']
   \<and> log (snd (snd (dataStore (fst (snd first_pass)) (snd (snd first_pass))))) =
       log (snd (snd first_pass))
   \<and> store (data (fst (snd (compose ascii_normaliser (fst (snd first_pass)) (snd (snd first_pass)))))) =
       Some [''apple'', ''banana'', ''grape'']
   \<and> filter fetches
        (log (snd (snd (compose ascii_normaliser (fst (snd first_pass)) (snd (snd first_pass)))))) =
       [SrcCalled,
        Emitted (Some 7) (DStore (Some [''apple'', ''banana'', ''grape''])) ''autoComplete.fetch'']"
proof -
  have cached: "cache (data (fst (snd first_pass)))"
    using first_pass_effects by blast
  have populated: "store (data (fst (snd first_pass))) = Some [''apple'', ''banana'', ''grape'']"
    using first_pass_effects by blast
  show ?thesis
    using cached_store_is_not_fetched_again
            [where nf = ascii_normaliser and p = "snd (snd first_pass)", OF cached populated]
          first_pass_effects
    by auto
qed

lemma assign_store_effects:
  "assign_store fetched this p = (outcome, this1, p1) \<Longrightarrow>
   outcome = Inr () \<and> this1 = this\<lparr>data := (data this)\<lparr>store := fetched\<rparr>\<rparr>
   \<and> p1 = p\<lparr>log := log p @ [Emitted (inputField this) (DStore fetched) ''autoComplete.fetch'']\<rparr>"
  by (auto simp: assign_store_def Let_def eventEmitter_def record_effect_def)

lemma dataStore_success:
  "dataStore this p = (Inr u, this1, p1) \<Longrightarrow>
   inputField this1 = inputField this
   \<and> p1 = p\<lparr>log := log p @
        (if cache (data this) \<and> store (data this) \<noteq> None then []
         else (case src (data this) of Some (SrcFunction outcome) \<Rightarrow> [SrcCalled] | _ \<Rightarrow> [])
              @ [Emitted (inputField this) (DStore (store (data this1))) ''autoComplete.fetch''])\<rparr>"
  by (auto simp: dataStore_def record_effect_def
      split: if_splits option.splits source.splits sum.splits dest!: assign_store_effects)

lemma start_rendering:
  "listMatchingResults nf this q \<noteq> [] \<Longrightarrow> render (resultsList this) \<Longrightarrow>
   start nf this input q p =
     (let fb = \<lparr>fb_input = input, fb_query = q, fb_matches = listMatchingResults nf this q,
                fb_results = slice (listMatchingResults nf this q) (maxResults this)\<rparr>
      in (Inr (),
          p\<lparr>openList := Some (fb_results fb),
            log := log p @
              [Emitted (inputField this) (DFeedback fb) ''autoComplete.results'',
               ListGenerated fb (fb_matches fb),
               Emitted (inputField this) (DFeedback fb) ''autoComplete.rendered'',
               NavigationEnabled fb]\<rparr>))"
  by (simp add: start_def Let_def eventEmitter_def generateList_def navigate_def record_effect_def)

text \<open>
  Claim C7. On a \<^verbatim>\<open>compose()\<close> pass where the trigger condition holds, the store is
  ready (\<^verbatim>\<open>dataStore()\<close> returned), there is a match and \<^verbatim>\<open>resultsList.render\<close> is
  true, the log gains, in this order: the effects of the fetch, exactly when the store
  was not served from the cache (the call of the source when it is a function, then
  \<^verbatim>\<open>autoComplete.fetch\<close> with the store); \<^verbatim>\<open>closeAllLists\<close>; \<^verbatim>\<open>autoComplete.results\<close>
  with the feedback object; the generation of the list; \<^verbatim>\<open>autoComplete.rendered\<close>; the
  navigation. Every event is dispatched on the input field.
\<close>

theorem compose_dispatches_events_in_order:
  "input = getInputValue p (inputField this) \<Longrightarrow>
   q = prepareQueryValue input (query this) \<Longrightarrow>
   checkTriggerCondition this q \<Longrightarrow>
   dataStore this p = (Inr (), this1, p1) \<Longrightarrow>
   listMatchingResults nf this1 q \<noteq> [] \<Longrightarrow>
   render (resultsList this1) \<Longrightarrow>
   (let fb = \<lparr>fb_input = input, fb_query = q, fb_matches = listMatchingResults nf this1 q,
               fb_results = slice (listMatchingResults nf this1 q) (maxResults this1)\<rparr>;
        field = inputField this
    in fst (compose nf this p) = Inr ()
       \<and> log (snd (snd (compose nf this p))) =
           log p
           @ (if cache (data this) \<and> store (data this) \<noteq> None then []
              else (case src (data this) of Some (SrcFunction outcome) \<Rightarrow> [SrcCalled] | _ \<Rightarrow> [])
                   @ [Emitted field (DStore (store (data this1))) ''autoComplete.fetch''])
           @ [ListsClosed None,
              Emitted field (DFeedback fb) ''autoComplete.results'',
              ListGenerated fb (fb_matches fb),
              Emitted field (DFeedback fb) ''autoComplete.rendered'',
              NavigationEnabled fb])"
proof -
  assume input: "input = getInputValue p (inputField this)"
    and q: "q = prepareQueryValue input (query this)"
    and trigger: "checkTriggerCondition this q"
    and fetched: "dataStore this p = (Inr (), this1, p1)"
    and matches: "listMatchingResults nf this1 q \<noteq> []"
    and rendering: "render (resultsList this1)"
  let ?p2 = "closeAllLists this1 None p1"
  have composed: "compose nf this p =
      (fst (start nf this1 input q ?p2), this1, snd (start nf this1 input q ?p2))"
    using input q trigger fetched by (simp add: compose_def Let_def split: prod.splits)
  have field: "inputField this1 = inputField this"
    using dataStore_success [OF fetched] by simp
  have p1: "log p1 = log p @
        (if cache (data this) \<and> store (data this) \<noteq> None then []
         else (case src (data this) of Some (SrcFunction outcome) \<Rightarrow> [SrcCalled] | _ \<Rightarrow> [])
              @ [Emitted (inputField this) (DStore (store (data this1))) ''autoComplete.fetch''])"
    using dataStore_success [OF fetched] by simp
  have p2: "log ?p2 = log p1 @ [ListsClosed None]"
    by (simp add: closeAllLists_def record_effect_def)
  show ?thesis
    unfolding composed start_rendering [OF matches rendering] Let_def
    by (simp add: field p1 p2)
qed

lemma finder_fetch:
  "dataStore fruit_finder p =
     (Inr (), fruit_stocked,
      p\<lparr>log := log p @
        [Emitted (Some 7) (DStore (Some [''apple'', ''banana'', ''grape''])) ''autoComplete.fetch'']\<rparr>)"
  by (simp add: dataStore_def finder_simps assign_store_def eventEmitter_def record_effect_def
      fruit_stocked_def)

lemma stocked_ap: "listMatchingResults ascii_normaliser fruit_stocked ''ap'' = [''apple'', ''grape'']"
  by (simp add: listMatchingResults_def fruit_stocked_simps search_def ascii_plain)

theorem compose_dispatches_events_in_order_witness:
  "''ap'' = getInputValue (blank_page ''ap'') (inputField fruit_finder)
   \<and> ''ap'' = prepareQueryValue ''ap'' (query fruit_finder)
   \<and> checkTriggerCondition fruit_finder ''ap''
   \<and> fst (dataStore fruit_finder (blank_page ''ap'')) = Inr ()
   \<and> listMatchingResults ascii_normaliser fruit_stocked ''ap'' \<noteq> []
   \<and> render (resultsList fruit_stocked)
   \<and> fst (compose ascii_normaliser fruit_finder (blank_page ''ap'')) = Inr ()
   \<and> log (snd (snd (compose ascii_normaliser fruit_finder (blank_page ''ap'')))) =
       [Emitted (Some 7) (DStore (Some [''apple'', ''banana'', ''grape''])) ''autoComplete.fetch'',
        ListsClosed None,
        Emitted (Some 7)
          (DFeedback \<lparr>fb_input = ''ap'', fb_query = ''ap'', fb_matches = [''apple'', ''grape''],
                      fb_results = [''apple'', ''grape'']\<rparr>) ''autoComplete.results'',
        ListGenerated
          \<lparr>fb_input = ''ap'', fb_query = ''ap'', fb_matches = [''apple'', ''grape''],
            fb_results = [''apple'', ''grape'']\<rparr> [''apple'', ''grape''],
        Emitted (Some 7)
          (DFeedback \<lparr>fb_input = ''ap'', fb_query = ''ap'', fb_matches = [''apple'', ''grape''],
                      fb_results = [''apple'', ''grape'']\<rparr>) ''autoComplete.rendered'',
        NavigationEnabled
          \<lparr>fb_input = ''ap'', fb_query = ''ap'', fb_matches = [''apple'', ''grape''],
            fb_results = [''apple'', ''grape'']\<rparr>]"
proof -
  have input: "''ap'' = getInputValue (blank_page ''ap'') (inputField fruit_finder)"
    by (simp add: getInputValue_def blank_page_def finder_simps)
  have q: "''ap'' = prepareQueryValue ''ap'' (query fruit_finder)"
    by (simp add: prepareQueryValue_def finder_simps)
  have trigger: "checkTriggerCondition fruit_finder ''ap''"
    by (simp add: checkTriggerCondition_def finder_simps)
  have matches: "listMatchingResults ascii_normaliser fruit_stocked ''ap'' \<noteq> []"
    by (simp add: stocked_ap)
  have rendering: "render (resultsList fruit_stocked)"
    by (simp add: fruit_stocked_simps)
  have blank: "log (blank_page ''ap'' :: string page) = []"
    by (simp add: blank_page_def)
  show ?thesis
    using compose_dispatches_events_in_order
            [OF input q trigger finder_fetch matches rendering]
          input q trigger matches rendering
    by (simp add: Let_def finder_fetch finder_simps fruit_stocked_simps stocked_ap
        slice_def blank)
qed

subsection \<open>Attaching and detaching: \<^verbatim>\<open>init\<close> and \<^verbatim>\<open>unInit\<close>\<close>

lemma attach_null: "events \<noteq> [] \<Longrightarrow> attach None h events p = (Inl TypeError, p)"
  by (cases events) simp_all

lemma attach_node: "fst (attach (Some node) h events p) = Inr ()"
  by (induction events arbitrary: p) simp_all

lemma attach_node_raises_nothing: "attach (Some node) h events p \<noteq> (Inl e, p4)"
  using attach_node [of node h events p] by auto

lemma init_null:
  "event (trigger this) \<noteq> [] \<or> truthy (placeHolder this) \<Longrightarrow>
   fst (init this None p) = Inl TypeError"
  by (auto simp: init_def Let_def attach_null split: prod.splits)

lemma init_node:
  "\<exists>this1 p1. init this (Some node) p = (Inr (), this1, p1)
     \<and> inputField this1 = Some node \<and> data this1 = data this"
  by (auto simp: init_def Let_def debouncer_def attach_node_raises_nothing
      split: prod.splits sum.splits)

text \<open>
  Claim C8, at the input where the code departs from it. With the default
  \<^verbatim>\<open>trigger.event\<close> (\<^verbatim>\<open>["input"]\<close>) \<^verbatim>\<open>unInit()\<close> removes the one listener that
  \<^verbatim>\<open>init\<close> attached. With \<^verbatim>\<open>trigger.event = ["input", "focus"]\<close>, \<^verbatim>\<open>init\<close> attaches
  the hook for both types, \<^verbatim>\<open>unInit()\<close> removes it for \<^verbatim>\<open>"input"\<close> only (the type is a
  constant of line 215) and emits \<^verbatim>\<open>autoComplete.unInit\<close>: the hook is still registered
  for \<^verbatim>\<open>"focus"\<close>, so the instance still reacts to that event.
\<close>

theorem unInit_leaves_other_listeners:
  "(\<exists>this. fst (constructor fruit_config (blank_page [])) = Inr this
      \<and> listeners (snd (constructor fruit_config (blank_page []))) = [(7, ''input'', Hook 0)]
      \<and> listeners (snd (unInit this (snd (constructor fruit_config (blank_page []))))) = [])
   \<and> (\<exists>this. fst (constructor focus_config (blank_page [])) = Inr this
      \<and> event (trigger this) = [''input'', ''focus'']
      \<and> hook this = Some (Hook 0)
      \<and> listeners (snd (constructor focus_config (blank_page []))) =
          [(7, ''input'', Hook 0), (7, ''focus'', Hook 0)]
      \<and> fst (unInit this (snd (constructor focus_config (blank_page [])))) = Inr ()
      \<and> listeners (snd (unInit this (snd (constructor focus_config (blank_page []))))) =
          [(7, ''focus'', Hook 0)]
      \<and> last (log (snd (unInit this (snd (constructor focus_config (blank_page [])))))) =
          Emitted (Some 7) DNull ''autoComplete.unInit'')"
  by (simp add: constructor_def preInit_def init_def Let_def focus_config_def fruit_config_def
      fruit_data_def assign_config_def default_to_def empty_trigger_def empty_resultsList_def
      empty_resultItem_def blank_page_def truthy_def debouncer_def eventEmitter_def
      inputComponent_def record_effect_def addEventListener_def unInit_def removeEventListener_def)

subsection \<open>Construction\<close>

text \<open>
  Claim C9, as amended. The constructor checks nothing and raises no error of its own
  making, but construction is not always silent. A configuration without a \<^verbatim>\<open>data\<close>
  object raises a TypeError. With a \<^verbatim>\<open>data\<close> object, a selector that finds no element
  leaves the field reference \<^verbatim>\<open>null\<close>, and \<^verbatim>\<open>init\<close> raises a TypeError on it whenever
  \<^verbatim>\<open>trigger.event\<close> is not empty (by default it is \<^verbatim>\<open>["input"]\<close>) or a placeholder is
  set: no instance is returned. When the selector finds an element the instance is
  constructed with that field, whatever \<^verbatim>\<open>data.src\<close> is: a missing source is accepted
  silently and stays \<^verbatim>\<open>undefined\<close>.
\<close>

theorem constructor_is_not_always_silent:
  "(c_data config = None \<longrightarrow> fst (constructor config p) = Inl TypeError)
   \<and> (\<forall>d field.
         c_data config = Some d
         \<and> field = (case selector (assign_config config d) of
                      SelFunction found \<Rightarrow> found
                    | SelString css \<Rightarrow> querySelector p css) \<longrightarrow>
         (field = None
            \<and> (event (trigger (assign_config config d)) \<noteq> []
                 \<or> truthy (placeHolder (assign_config config d))) \<longrightarrow>
            fst (constructor config p) = Inl TypeError)
         \<and> (field \<noteq> None \<longrightarrow>
              (\<exists>this. fst (constructor config p) = Inr this
                  \<and> inputField this = field \<and> src (data this) = c_src d)))"
proof -
  have dataless: "c_data config = None \<longrightarrow> fst (constructor config p) = Inl TypeError"
    by (simp add: constructor_def)
  have found: "preInit (assign_config config d) p =
      init (assign_config config d) field (eventEmitter field DNull ''connect'' p)"
    if "field = (case selector (assign_config config d) of
                   SelFunction found \<Rightarrow> found
                 | SelString css \<Rightarrow> querySelector p css)" for d field
    using that by (simp add: preInit_def Let_def)
  have lost: "fst (constructor config p) = Inl TypeError"
    if "c_data config = Some d"
      and "field = (case selector (assign_config config d) of
                      SelFunction found \<Rightarrow> found
                    | SelString css \<Rightarrow> querySelector p css)"
      and "field = None"
      and "event (trigger (assign_config config d)) \<noteq> []
             \<or> truthy (placeHolder (assign_config config d))" for d field
  proof -
    have "fst (init (assign_config config d) field (eventEmitter field DNull ''connect'' p)) =
        Inl TypeError"
      using that(3,4) init_null by blast
    then obtain this1 p2 where
        "init (assign_config config d) field (eventEmitter field DNull ''connect'' p) =
           (Inl TypeError, this1, p2)"
      by (metis prod.collapse)
    then show ?thesis
      using that(1) found [OF that(2)] by (simp add: constructor_def)
  qed
  have attached: "\<exists>this. fst (constructor config p) = Inr this
                  \<and> inputField this = field \<and> src (data this) = c_src d"
    if given: "c_data config = Some d"
      and selected: "field = (case selector (assign_config config d) of
                      SelFunction found \<Rightarrow> found
                    | SelString css \<Rightarrow> querySelector p css)"
      and present: "field \<noteq> None" for d field
  proof -
    obtain node where node: "field = Some node"
      using present by blast
    obtain this1 p2 where ready:
        "init (assign_config config d) (Some node) (eventEmitter field DNull ''connect'' p) =
           (Inr (), this1, p2)"
        "inputField this1 = Some node" "data this1 = data (assign_config config d)"
      using init_node by blast
    have "src (data (assign_config config d)) = c_src d"
      by (simp add: assign_config_def Let_def)
    then show ?thesis
      using given found [OF selected] node ready by (simp add: constructor_def)
  qed
  show ?thesis
    using dataless lost attached by blast
qed

lemma config_simps:
  "c_data lost_config = Some fruit_data" "c_data dataless_config = None"
  "c_data sourceless_config = Some (fruit_data\<lparr>c_src := None\<rparr>)"
  "selector (assign_config lost_config fruit_data) = SelString ''#search''"
  "event (trigger (assign_config lost_config fruit_data)) = [''input'']"
  "selector (assign_config sourceless_config (fruit_data\<lparr>c_src := None\<rparr>)) = SelString ''#autoComplete''"
  by (simp_all add: lost_config_def dataless_config_def sourceless_config_def fruit_config_def
      assign_config_def default_to_def empty_trigger_def)

lemma blank_query:
  "querySelector (blank_page typed) ''#search'' = None"
  "querySelector (blank_page typed) ''#autoComplete'' = Some 7"
  by (simp_all add: blank_page_def)

theorem constructor_is_not_always_silent_witness:
  "c_data dataless_config = None
   \<and> fst (constructor dataless_config (blank_page [])) = Inl TypeError
   \<and> c_data lost_config = Some fruit_data
   \<and> querySelector (blank_page []) ''#search'' = None
   \<and> event (trigger (assign_config lost_config fruit_data)) \<noteq> []
   \<and> fst (constructor lost_config (blank_page [])) = Inl TypeError
   \<and> c_data sourceless_config = Some (fruit_data\<lparr>c_src := None\<rparr>)
   \<and> (\<exists>this. fst (constructor sourceless_config (blank_page [])) = Inr this
          \<and> inputField this = Some 7 \<and> src (data this) = None)"
proof -
  have dataless: "fst (constructor dataless_config (blank_page [])) = Inl TypeError"
    using constructor_is_not_always_silent [of dataless_config "blank_page []"]
    by (simp add: config_simps)
  have lost: "fst (constructor lost_config (blank_page [])) = Inl TypeError"
    using constructor_is_not_always_silent [of lost_config "blank_page []"]
    by (simp add: config_simps blank_query)
  have sourceless: "\<exists>this. fst (constructor sourceless_config (blank_page [])) = Inr this
          \<and> inputField this = Some 7 \<and> src (data this) = None"
    using constructor_is_not_always_silent [of sourceless_config "blank_page []"]
    by (simp add: config_simps blank_query)
  show ?thesis
    using dataless lost sourceless by (simp add: config_simps blank_query)
qed

text \<open>
  Claim C9 as stated fails: with the default trigger events, constructing on a page
  where the selector matches no element raises a TypeError, and so does constructing
  from a configuration that has no \<^verbatim>\<open>data\<close> object.
\<close>

theorem constructor_raises_counterexample:
  "fst (constructor lost_config (blank_page [])) = Inl TypeError
   \<and> fst (constructor dataless_config (blank_page [])) = Inl TypeError"
  by (simp add: constructor_def preInit_def init_def Let_def config_simps blank_query
      truthy_def attach_null debouncer_def split: prod.splits)

end
